theory Spec2Isabelle
  imports Main
begin

section \<open>The frontend's API base URL (\<^verbatim>\<open>getApiUrl\<close>)\<close>

text \<open>
  JavaScript values the frontend code tests for truthiness are strings that may be
  \<^verbatim>\<open>undefined\<close> (an environment variable that is not set, a missing
  \<^verbatim>\<open>localStorage\<close> entry, which is \<^verbatim>\<open>null\<close>): they are modelled as
  \<open>string option\<close>. Such a value is truthy exactly when it is a non-empty string.
\<close>

definition truthy :: "string option \<Rightarrow> bool" where
  "truthy v = (case v of None \<Rightarrow> False | Some s \<Rightarrow> s \<noteq> [])"

text \<open>\<^verbatim>\<open>a || b\<close> on a possibly undefined string \<open>a\<close> and a string \<open>b\<close>.\<close>

definition or_else :: "string option \<Rightarrow> string \<Rightarrow> string" where
  "or_else v d = (case v of None \<Rightarrow> d | Some s \<Rightarrow> if s \<noteq> [] then s else d)"

text \<open>
  \<^verbatim>\<open>window.location\<close>, of which the code reads three string fields. The window
  itself is absent during server-side rendering (\<^verbatim>\<open>typeof window === 'undefined'\<close>),
  so the function takes a \<open>location option\<close>.
\<close>

record location =
  protocol :: string
  hostname :: string
  port :: string

text \<open>
  \<^verbatim>\<open>getApiUrl\<close> of \<^verbatim>\<open>frontend/src/utils/api.js\<close>. Its inputs are made explicit: the value
  of \<^verbatim>\<open>process.env.NEXT_PUBLIC_API_URL\<close> and the window's location.
\<close>

definition getApiUrl :: "string option \<Rightarrow> location option \<Rightarrow> string" where
  "getApiUrl NEXT_PUBLIC_API_URL window =
     (if truthy NEXT_PUBLIC_API_URL then (case NEXT_PUBLIC_API_URL of Some u \<Rightarrow> u | None \<Rightarrow> [])
      else case window of
        Some loc \<Rightarrow>
          if hostname loc \<noteq> ''localhost'' \<and> hostname loc \<noteq> ''127.0.0.1'' then
            (if port loc \<noteq> [] \<and> port loc \<noteq> ''80'' \<and> port loc \<noteq> ''443''
             then protocol loc @ ''//'' @ hostname loc @ '':5000''
             else protocol loc @ ''//'' @ hostname loc)
          else ''http://localhost:5000''
      | None \<Rightarrow> ''http://localhost:5000'')"

text \<open>The second copy of \<^verbatim>\<open>getApiUrl\<close> in the sources, in the file kept as part 000.\<close>

definition getApiUrl_part_000 :: "string option \<Rightarrow> location option \<Rightarrow> string" where
  "getApiUrl_part_000 NEXT_PUBLIC_API_URL window =
     (if truthy NEXT_PUBLIC_API_URL then (case NEXT_PUBLIC_API_URL of Some u \<Rightarrow> u | None \<Rightarrow> [])
      else case window of
        Some loc \<Rightarrow>
          if hostname loc \<noteq> ''localhost'' \<and> hostname loc \<noteq> ''127.0.0.1'' then
            (if port loc \<noteq> [] \<and> port loc \<noteq> ''80'' \<and> port loc \<noteq> ''443''
             then protocol loc @ ''//'' @ hostname loc @ '':5000''
             else protocol loc @ ''//'' @ hostname loc)
          else ''http://localhost:5000''
      | None \<Rightarrow> ''http://localhost:5000'')"

section \<open>The Next.js rewrites (\<^verbatim>\<open>nextConfig.rewrites\<close>)\<close>

text \<open>
  A rewrite rule as the configuration returns it: an object with a \<^verbatim>\<open>source\<close> pattern and
  a \<^verbatim>\<open>destination\<close>.
\<close>

record rewrite =
  source :: string
  destination :: string

text \<open>
  The local constant \<^verbatim>\<open>backendUrl\<close> of \<^verbatim>\<open>rewrites()\<close>:
  \<^verbatim>\<open>process.env.BACKEND_URL || 'http://backend:5000'\<close>.
\<close>

definition backendUrl :: "string option \<Rightarrow> string" where
  "backendUrl BACKEND_URL = or_else BACKEND_URL ''http://backend:5000''"

definition nextConfig_rewrites :: "string option \<Rightarrow> rewrite list" where
  "nextConfig_rewrites BACKEND_URL =
     [\<lparr>source = ''/api/:path*'', destination = backendUrl BACKEND_URL @ ''/:path*''\<rparr>,
      \<lparr>source = ''/auth/:path*'', destination = backendUrl BACKEND_URL @ ''/auth/:path*''\<rparr>,
      \<lparr>source = ''/v1/:path*'', destination = backendUrl BACKEND_URL @ ''/v1/:path*''\<rparr>]"

text \<open>
  What the framework does with such rules is not code of the repository. The fragment of
  Next.js's documented behaviour that these three rules use is written out here: a pattern
  is a sequence of segments separated by \<^verbatim>\<open>/\<close>; a literal segment matches itself; a final
  \<^verbatim>\<open>:path*\<close> matches the remaining segments of the request path, zero or more, and the
  \<^verbatim>\<open>:path*\<close> at the end of the destination is replaced by them. Rules are tried in the
  order of the list. A request path is given by its segments: \<^verbatim>\<open>/api/a/b\<close> is
  \<open>[''api'', ''a'', ''b'']\<close>.
\<close>

fun split_path :: "string \<Rightarrow> string list" where
  "split_path [] = [[]]"
| "split_path (c # cs) =
     (if c = CHR ''/'' then [] # split_path cs
      else case split_path cs of s # ss \<Rightarrow> (c # s) # ss | [] \<Rightarrow> [[c]])"

fun match_source :: "string list \<Rightarrow> string list \<Rightarrow> string list option" where
  "match_source [] segs = (if segs = [] then Some [] else None)"
| "match_source (p # ps) segs =
     (if p = '':path*'' \<and> ps = [] then Some segs
      else case segs of
        [] \<Rightarrow> None
      | s # ss \<Rightarrow> if p = s then match_source ps ss else None)"

definition join_path :: "string list \<Rightarrow> string" where
  "join_path segs = concat (map (\<lambda>s. CHR ''/'' # s) segs)"

definition fill_destination :: "string \<Rightarrow> string list \<Rightarrow> string" where
  "fill_destination dest captured =
     (if drop (length dest - 7) dest = ''/:path*''
      then take (length dest - 7) dest @ join_path captured
      else dest)"

definition apply_rewrite :: "rewrite \<Rightarrow> string list \<Rightarrow> string option" where
  "apply_rewrite r segs =
     map_option (fill_destination (destination r))
       (match_source (tl (split_path (source r))) segs)"

fun first_rewrite :: "rewrite list \<Rightarrow> string list \<Rightarrow> string option" where
  "first_rewrite [] segs = None"
| "first_rewrite (r # rs) segs =
     (case apply_rewrite r segs of
        Some d \<Rightarrow> Some d
      | None \<Rightarrow> first_rewrite rs segs)"

section \<open>The admin page's mount effect (\<^verbatim>\<open>AdminPage\<close>)\<close>

text \<open>
  The value \<^verbatim>\<open>JSON.parse\<close> returns. The code never looks at a number's value, so
  integers stand for numbers. An object is the list of its members, each key once.
\<close>

datatype json =
  JNull
| JBool bool
| JNum int
| JStr string
| JArr "json list"
| JObj "(string \<times> json) list"

datatype js_error = SyntaxError | TypeError

text \<open>
  Reading a property of a parsed value, \<^verbatim>\<open>v.key\<close>: a \<^verbatim>\<open>TypeError\<close> on \<^verbatim>\<open>null\<close>, the
  member's value on an object that has the key, and \<^verbatim>\<open>undefined\<close> (\<open>None\<close>) otherwise
  (no array, string, number or boolean has a property named \<^verbatim>\<open>scopes\<close>).
\<close>

definition get_prop :: "json \<Rightarrow> string \<Rightarrow> js_error + json option" where
  "get_prop v key =
     (case v of
        JNull \<Rightarrow> Inl TypeError
      | JObj members \<Rightarrow> Inr (map_of members key)
      | _ \<Rightarrow> Inr None)"

text \<open>\<^verbatim>\<open>String.prototype.includes\<close>: the second string occurs in the first.\<close>

fun string_includes :: "string \<Rightarrow> string \<Rightarrow> bool" where
  "string_includes [] s = (s = [])"
| "string_includes (c # cs) s = (take (length s) (c # cs) = s \<or> string_includes cs s)"

text \<open>
  \<^verbatim>\<open>x?.includes(s)\<close>, read as a condition: \<^verbatim>\<open>undefined\<close> (falsy) when \<open>x\<close> is
  \<^verbatim>\<open>undefined\<close> or \<^verbatim>\<open>null\<close>; \<^verbatim>\<open>Array.prototype.includes\<close> on an array (some element is
  the string \<open>s\<close>); \<^verbatim>\<open>String.prototype.includes\<close> on a string; and a \<^verbatim>\<open>TypeError\<close> on a
  number, a boolean or an object, none of which has a callable \<^verbatim>\<open>includes\<close>.
\<close>

definition optional_includes :: "json option \<Rightarrow> string \<Rightarrow> js_error + bool" where
  "optional_includes x s =
     (case x of
        None \<Rightarrow> Inr False
      | Some JNull \<Rightarrow> Inr False
      | Some (JArr elems) \<Rightarrow> Inr (JStr s \<in> set elems)
      | Some (JStr t) \<Rightarrow> Inr (string_includes t s)
      | Some _ \<Rightarrow> Inl TypeError)"

text \<open>The condition \<^verbatim>\<open>parsedUser.scopes?.includes('admin')\<close> of the effect.\<close>

definition scopes_include_admin :: "json \<Rightarrow> js_error + bool" where
  "scopes_include_admin parsedUser =
     (case get_prop parsedUser ''scopes'' of
        Inl e \<Rightarrow> Inl e
      | Inr scopes \<Rightarrow> optional_includes scopes ''admin'')"

text \<open>
  What the effect does to the outside: a navigation, the state update \<^verbatim>\<open>setUser\<close>, and the
  request that \<^verbatim>\<open>fetchConfig\<close> sends.
\<close>

record request =
  url :: string
  authorization :: string

datatype action = RouterPush string | SetUser json | Fetch request

text \<open>
  The request of \<^verbatim>\<open>fetchConfig\<close>: \<^verbatim>\<open>fetch(`${apiUrl}/admin/config`, ...)\<close> with the header
  \<^verbatim>\<open>Authorization: Bearer ${token}\<close>, where a missing token prints as \<^verbatim>\<open>null\<close>.
\<close>

definition fetchConfig :: "string option \<Rightarrow> (string \<Rightarrow> string option) \<Rightarrow> request" where
  "fetchConfig API_URL localStorage =
     \<lparr>url = or_else API_URL ''http://localhost:5000'' @ ''/admin/config'',
      authorization = ''Bearer '' @ (case localStorage ''token'' of Some t \<Rightarrow> t | None \<Rightarrow> ''null'')\<rparr>"

text \<open>
  The effect that \<^verbatim>\<open>AdminPage\<close> runs on mount. Its inputs are \<^verbatim>\<open>localStorage\<close> (a map from
  keys to strings), \<^verbatim>\<open>process.env.API_URL\<close> and the built-in \<^verbatim>\<open>JSON.parse\<close>, a parameter:
  \<open>None\<close> is the \<^verbatim>\<open>SyntaxError\<close> it throws on a text that is not JSON. The result is the
  list of actions performed, or the exception that leaves the effect.
\<close>

definition AdminPage_useEffect ::
  "(string \<Rightarrow> json option) \<Rightarrow> string option \<Rightarrow> (string \<Rightarrow> string option) \<Rightarrow> js_error + action list" where
  "AdminPage_useEffect JSON_parse API_URL localStorage =
     (let token = localStorage ''token''; userData = localStorage ''user'' in
      if \<not> truthy token \<or> \<not> truthy userData then Inr [RouterPush ''/login'']
      else case JSON_parse (case userData of Some u \<Rightarrow> u | None \<Rightarrow> []) of
        None \<Rightarrow> Inl SyntaxError
      | Some parsedUser \<Rightarrow>
          (case scopes_include_admin parsedUser of
             Inl e \<Rightarrow> Inl e
           | Inr has_admin \<Rightarrow>
               if \<not> has_admin then Inr [RouterPush ''/'']
               else Inr [SetUser parsedUser, Fetch (fetchConfig API_URL localStorage)]))"

section \<open>The registry engine's metadata store and pipeline\<close>

text \<open>
  The server that executes route pipelines is not among the source files (the frontend
  that calls it and displays its configuration is). The parts of it that the claims below
  are about are modelled from the specification's words.
\<close>












section \<open>The registry engine's authorization decision\<close>

text \<open>
  Modelled from the spec: the effect of a policy and the decision of the evaluator
  (sections 3 and 4.3); the server's policy types are missing from the sources.
\<close>

datatype effect = Allow | Deny

text \<open>
  Modelled from the spec: a principal with its scopes (section 4.3), missing from the
  sources. The anonymous principal is \<open>None\<close> of \<open>principal option\<close>.
\<close>

record principal =
  principal_id :: string
  scopes :: "string list"

text \<open>
  Modelled from the spec: the resource context of \<^verbatim>\<open>decide\<close> (section 4.3), a map of the
  resource's attributes; the server's type is missing from the sources.
\<close>

type_synonym resource_context = "string \<rightharpoonup> string"

text \<open>
  Modelled from the spec: an auth policy (section 3), missing from the sources: name,
  effect, conditions (when the policy applies, a property of the action and the resource)
  and requirements (what must hold of the principal and the request for the policy to
  grant or deny). The spec fixes no language for the two, so they are predicates.
\<close>

record policy =
  policy_name :: string
  policy_effect :: effect
  conditions :: "string \<Rightarrow> resource_context \<Rightarrow> bool"
  requirements :: "principal option \<Rightarrow> resource_context \<Rightarrow> bool"

text \<open>
  Modelled from the spec: what one policy evaluates to (section 4.3), missing from the
  sources: its effect if its conditions match the action and the resource and its
  requirements hold, nothing otherwise.
\<close>

definition evaluate :: "policy \<Rightarrow> principal option \<Rightarrow> string \<Rightarrow> resource_context \<Rightarrow> effect option" where
  "evaluate p who action res =
     (if conditions p action res \<and> requirements p who res then Some (policy_effect p) else None)"

text \<open>
  Modelled from the spec: the evaluation of the ordered rule set (section 3), missing from
  the sources. The policies are evaluated in order: a deny ends the evaluation with Deny
  whatever was seen before, an allow is remembered, and a policy that evaluates to neither
  leaves the decision so far.
\<close>

fun decide_from :: "effect \<Rightarrow> policy list \<Rightarrow> principal option \<Rightarrow> string \<Rightarrow> resource_context \<Rightarrow> effect" where
  "decide_from so_far [] who action res = so_far"
| "decide_from so_far (p # ps) who action res =
     (case evaluate p who action res of
        Some Deny \<Rightarrow> Deny
      | Some Allow \<Rightarrow> decide_from Allow ps who action res
      | None \<Rightarrow> decide_from so_far ps who action res)"

text \<open>
  Modelled from the spec: \<^verbatim>\<open>decide\<close> (section 4.3), missing from the sources: the ordered
  evaluation, started from the default, Deny.
\<close>

definition decide :: "policy list \<Rightarrow> principal option \<Rightarrow> string \<Rightarrow> resource_context \<Rightarrow> effect" where
  "decide ps who action res = decide_from Deny ps who action res"

section \<open>Properties of \<^verbatim>\<open>getApiUrl\<close>\<close>

lemma getApiUrl_env:
  "truthy env \<Longrightarrow> getApiUrl env w = (case env of Some u \<Rightarrow> u | None \<Rightarrow> [])"
  by (simp add: getApiUrl_def)

lemma getApiUrl_nonempty: "getApiUrl env w \<noteq> []"
  by (auto simp: getApiUrl_def truthy_def split: option.splits)

lemma getApiUrl_copies_agree: "getApiUrl_part_000 env w = getApiUrl env w"
  by (simp add: getApiUrl_def getApiUrl_part_000_def)

text \<open>
  Claim C8. \<^verbatim>\<open>getApiUrl\<close> is a total function of the environment variable and the
  window's location. A non-empty \<^verbatim>\<open>NEXT_PUBLIC_API_URL\<close> is returned unchanged. Otherwise
  (the variable is unset or empty): with no window, or with the host name
  \<^verbatim>\<open>localhost\<close> or \<^verbatim>\<open>127.0.0.1\<close>, the result is \<^verbatim>\<open>http://localhost:5000\<close>; on any other host
  it is protocol, \<^verbatim>\<open>//\<close>, host name and \<^verbatim>\<open>:5000\<close> when the port is non-empty and neither
  \<^verbatim>\<open>80\<close> nor \<^verbatim>\<open>443\<close>, and protocol, \<^verbatim>\<open>//\<close> and host name otherwise. The result is never the
  empty string, and the two copies of the function agree on every input.
\<close>

theorem getApiUrl_spec:
  "(\<forall>u. env = Some u \<and> u \<noteq> [] \<longrightarrow> getApiUrl env w = u)
   \<and> (env = None \<or> env = Some [] \<longrightarrow>
        ((w = None \<or> (\<exists>l. w = Some l \<and> (hostname l = ''localhost'' \<or> hostname l = ''127.0.0.1'')))
           \<longrightarrow> getApiUrl env w = ''http://localhost:5000'')
        \<and> (\<forall>l. w = Some l \<and> hostname l \<noteq> ''localhost'' \<and> hostname l \<noteq> ''127.0.0.1'' \<longrightarrow>
              (if port l \<noteq> [] \<and> port l \<noteq> ''80'' \<and> port l \<noteq> ''443''
               then getApiUrl env w = protocol l @ ''//'' @ hostname l @ '':5000''
               else getApiUrl env w = protocol l @ ''//'' @ hostname l)))
   \<and> getApiUrl env w \<noteq> []
   \<and> getApiUrl_part_000 env w = getApiUrl env w"
proof (intro conjI)
  show "\<forall>u. env = Some u \<and> u \<noteq> [] \<longrightarrow> getApiUrl env w = u"
    by (simp add: getApiUrl_def truthy_def)
next
  have unset: "env = None \<or> env = Some [] \<Longrightarrow> \<not> truthy env"
    by (auto simp: truthy_def)
  show "env = None \<or> env = Some [] \<longrightarrow>
        ((w = None \<or> (\<exists>l. w = Some l \<and> (hostname l = ''localhost'' \<or> hostname l = ''127.0.0.1'')))
           \<longrightarrow> getApiUrl env w = ''http://localhost:5000'')
        \<and> (\<forall>l. w = Some l \<and> hostname l \<noteq> ''localhost'' \<and> hostname l \<noteq> ''127.0.0.1'' \<longrightarrow>
              (if port l \<noteq> [] \<and> port l \<noteq> ''80'' \<and> port l \<noteq> ''443''
               then getApiUrl env w = protocol l @ ''//'' @ hostname l @ '':5000''
               else getApiUrl env w = protocol l @ ''//'' @ hostname l))"
  proof
    assume "env = None \<or> env = Some []"
    then have nt: "\<not> truthy env" by (rule unset)
    show "((w = None \<or> (\<exists>l. w = Some l \<and> (hostname l = ''localhost'' \<or> hostname l = ''127.0.0.1'')))
           \<longrightarrow> getApiUrl env w = ''http://localhost:5000'')
        \<and> (\<forall>l. w = Some l \<and> hostname l \<noteq> ''localhost'' \<and> hostname l \<noteq> ''127.0.0.1'' \<longrightarrow>
              (if port l \<noteq> [] \<and> port l \<noteq> ''80'' \<and> port l \<noteq> ''443''
               then getApiUrl env w = protocol l @ ''//'' @ hostname l @ '':5000''
               else getApiUrl env w = protocol l @ ''//'' @ hostname l))"
      using nt by (auto simp: getApiUrl_def)
  qed
next
  show "getApiUrl env w \<noteq> []"
    by (rule getApiUrl_nonempty)
next
  show "getApiUrl_part_000 env w = getApiUrl env w"
    by (rule getApiUrl_copies_agree)
qed

theorem getApiUrl_spec_witness:
  "getApiUrl (Some ''https://api.example.com'') None = ''https://api.example.com''
   \<and> getApiUrl None (Some \<lparr>protocol = ''https:'', hostname = ''example.com'', port = ''3000''\<rparr>)
       = ''https://example.com:5000''
   \<and> getApiUrl (Some []) (Some \<lparr>protocol = ''https:'', hostname = ''example.com'', port = ''443''\<rparr>)
       = ''https://example.com''
   \<and> getApiUrl None (Some \<lparr>protocol = ''http:'', hostname = ''127.0.0.1'', port = ''3000''\<rparr>)
       = ''http://localhost:5000''
   \<and> getApiUrl None None = ''http://localhost:5000''"
  using getApiUrl_spec [of "Some ''https://api.example.com''" None]
    getApiUrl_spec [of None "Some \<lparr>protocol = ''https:'', hostname = ''example.com'', port = ''3000''\<rparr>"]
    getApiUrl_spec [of "Some []" "Some \<lparr>protocol = ''https:'', hostname = ''example.com'', port = ''443''\<rparr>"]
    getApiUrl_spec [of None "Some \<lparr>protocol = ''http:'', hostname = ''127.0.0.1'', port = ''3000''\<rparr>"]
    getApiUrl_spec [of None None]
  by simp

section \<open>Properties of the rewrites\<close>

lemma fill_destination_path:
  "fill_destination (d @ ''/:path*'') captured = d @ join_path captured"
  by (simp add: fill_destination_def)

lemma join_path_Cons: "join_path (s # segs) = CHR ''/'' # s @ join_path segs"
  by (simp add: join_path_def)

lemma apply_rewrite_api:
  "apply_rewrite \<lparr>source = ''/api/:path*'', destination = b @ ''/:path*''\<rparr> segs =
     (case segs of s # rest \<Rightarrow> if s = ''api'' then Some (b @ join_path rest) else None | [] \<Rightarrow> None)"
  by (auto simp: apply_rewrite_def fill_destination_path split: list.splits)

lemma apply_rewrite_auth:
  "apply_rewrite \<lparr>source = ''/auth/:path*'', destination = b @ ''/auth/:path*''\<rparr> segs =
     (case segs of s # rest \<Rightarrow> if s = ''auth'' then Some (b @ join_path segs) else None | [] \<Rightarrow> None)"
  using fill_destination_path [of "b @ ''/auth''"]
  by (auto simp: apply_rewrite_def join_path_Cons split: list.splits)

lemma apply_rewrite_v1:
  "apply_rewrite \<lparr>source = ''/v1/:path*'', destination = b @ ''/v1/:path*''\<rparr> segs =
     (case segs of s # rest \<Rightarrow> if s = ''v1'' then Some (b @ join_path segs) else None | [] \<Rightarrow> None)"
  using fill_destination_path [of "b @ ''/v1''"]
  by (auto simp: apply_rewrite_def join_path_Cons split: list.splits)

lemma backendUrl_cases:
  "(\<forall>u. env = Some u \<and> u \<noteq> [] \<longrightarrow> backendUrl env = u)
   \<and> (env = None \<or> env = Some [] \<longrightarrow> backendUrl env = ''http://backend:5000'')"
  by (auto simp: backendUrl_def or_else_def)

text \<open>
  Claim C9, as amended. The configuration always returns exactly three rules, with the
  sources \<^verbatim>\<open>/api/:path*\<close>, \<^verbatim>\<open>/auth/:path*\<close> and \<^verbatim>\<open>/v1/:path*\<close>. A request path under \<^verbatim>\<open>/api\<close> is
  forwarded to the backend URL followed by the rest of the path, the leading \<^verbatim>\<open>/api\<close>
  removed; a path under \<^verbatim>\<open>/auth\<close> or \<^verbatim>\<open>/v1\<close> is forwarded to the backend URL followed by the
  whole path, prefix included. The backend URL is \<^verbatim>\<open>BACKEND_URL\<close> when that variable is set
  to a non-empty string, and \<^verbatim>\<open>http://backend:5000\<close> when it is unset or empty.
\<close>

theorem nextConfig_rewrites_spec:
  "length (nextConfig_rewrites env) = 3
   \<and> map source (nextConfig_rewrites env) = [''/api/:path*'', ''/auth/:path*'', ''/v1/:path*'']
   \<and> first_rewrite (nextConfig_rewrites env) (''api'' # rest) = Some (backendUrl env @ join_path rest)
   \<and> first_rewrite (nextConfig_rewrites env) (''auth'' # rest)
       = Some (backendUrl env @ join_path (''auth'' # rest))
   \<and> first_rewrite (nextConfig_rewrites env) (''v1'' # rest)
       = Some (backendUrl env @ join_path (''v1'' # rest))
   \<and> (\<forall>u. env = Some u \<and> u \<noteq> [] \<longrightarrow> backendUrl env = u)
   \<and> (env = None \<or> env = Some [] \<longrightarrow> backendUrl env = ''http://backend:5000'')"
proof (intro conjI)
  show "length (nextConfig_rewrites env) = 3"
    by (simp add: nextConfig_rewrites_def)
  show "map source (nextConfig_rewrites env) = [''/api/:path*'', ''/auth/:path*'', ''/v1/:path*'']"
    by (simp add: nextConfig_rewrites_def)
  show "first_rewrite (nextConfig_rewrites env) (''api'' # rest) = Some (backendUrl env @ join_path rest)"
    by (simp add: nextConfig_rewrites_def apply_rewrite_api)
  show "first_rewrite (nextConfig_rewrites env) (''auth'' # rest)
       = Some (backendUrl env @ join_path (''auth'' # rest))"
    by (simp add: nextConfig_rewrites_def apply_rewrite_api apply_rewrite_auth)
  show "first_rewrite (nextConfig_rewrites env) (''v1'' # rest)
       = Some (backendUrl env @ join_path (''v1'' # rest))"
    by (simp add: nextConfig_rewrites_def apply_rewrite_api apply_rewrite_auth apply_rewrite_v1)
  show "\<forall>u. env = Some u \<and> u \<noteq> [] \<longrightarrow> backendUrl env = u"
    using backendUrl_cases by blast
  show "env = None \<or> env = Some [] \<longrightarrow> backendUrl env = ''http://backend:5000''"
    using backendUrl_cases by blast
qed

theorem nextConfig_rewrites_spec_witness:
  "first_rewrite (nextConfig_rewrites (Some ''http://10.0.0.5:8080'')) [''api'', ''packages'', ''foo'']
     = Some ''http://10.0.0.5:8080/packages/foo''
   \<and> first_rewrite (nextConfig_rewrites (Some ''http://10.0.0.5:8080'')) [''auth'', ''login'']
     = Some ''http://10.0.0.5:8080/auth/login''
   \<and> first_rewrite (nextConfig_rewrites None) [''v1'', ''acme'', ''foo'']
     = Some ''http://backend:5000/v1/acme/foo''
   \<and> backendUrl (Some ''http://10.0.0.5:8080'') = ''http://10.0.0.5:8080''
   \<and> backendUrl None = ''http://backend:5000''"
  using nextConfig_rewrites_spec [of "Some ''http://10.0.0.5:8080''" "[''packages'', ''foo'']"]
    nextConfig_rewrites_spec [of "Some ''http://10.0.0.5:8080''" "[''login'']"]
    nextConfig_rewrites_spec [of None "[''acme'', ''foo'']"]
  by (simp add: join_path_def)

text \<open>
  The claim as it was stated takes the backend URL to be \<^verbatim>\<open>BACKEND_URL\<close> whenever the
  variable is set. With the variable set to the empty string, \<^verbatim>\<open>||\<close> takes the fallback:
  the backend URL is \<^verbatim>\<open>http://backend:5000\<close>, not the variable's value, and so are the three
  destinations.
\<close>

theorem nextConfig_rewrites_empty_env_counterexample:
  "backendUrl (Some []) = ''http://backend:5000''
   \<and> backendUrl (Some []) \<noteq> []
   \<and> map destination (nextConfig_rewrites (Some [])) =
       [''http://backend:5000/:path*'', ''http://backend:5000/auth/:path*'',
        ''http://backend:5000/v1/:path*'']"
  by (simp add: nextConfig_rewrites_def backendUrl_def or_else_def)

section \<open>Properties of the admin page's mount effect\<close>

lemma useEffect_login:
  "localStorage ''token'' = None \<or> localStorage ''user'' = None \<Longrightarrow>
   AdminPage_useEffect JSON_parse API_URL localStorage = Inr [RouterPush ''/login'']"
  by (auto simp: AdminPage_useEffect_def truthy_def)

lemma useEffect_checked:
  assumes "truthy (localStorage ''token'')" and "localStorage ''user'' = Some u" and "u \<noteq> []"
    and "JSON_parse u = Some parsedUser" and "scopes_include_admin parsedUser = Inr has_admin"
  shows "AdminPage_useEffect JSON_parse API_URL localStorage =
           (if has_admin then Inr [SetUser parsedUser, Fetch (fetchConfig API_URL localStorage)]
            else Inr [RouterPush ''/''])"
  using assms by (simp add: AdminPage_useEffect_def truthy_def)

lemma scopes_include_admin_array:
  "map_of members ''scopes'' = Some (JArr elems) \<Longrightarrow>
   scopes_include_admin (JObj members) = Inr (JStr ''admin'' \<in> set elems)"
  by (simp add: scopes_include_admin_def get_prop_def optional_includes_def)

lemma scopes_include_admin_missing:
  "map_of members ''scopes'' = None \<or> map_of members ''scopes'' = Some JNull \<Longrightarrow>
   scopes_include_admin (JObj members) = Inr False"
  by (auto simp: scopes_include_admin_def get_prop_def optional_includes_def)

text \<open>
  The condition of the effect is true on two kinds of stored user: an object whose
  \<^verbatim>\<open>scopes\<close> is an array with the element \<^verbatim>\<open>'admin'\<close>, and an object whose \<^verbatim>\<open>scopes\<close> is a
  string in which the text \<^verbatim>\<open>admin\<close> occurs anywhere.
\<close>

lemma scopes_include_admin_True:
  "scopes_include_admin user = Inr True \<longleftrightarrow>
     (\<exists>members. user = JObj members \<and>
        ((\<exists>elems. map_of members ''scopes'' = Some (JArr elems) \<and> JStr ''admin'' \<in> set elems)
         \<or> (\<exists>t. map_of members ''scopes'' = Some (JStr t) \<and> string_includes t ''admin'')))"
  by (cases user)
    (auto simp: scopes_include_admin_def get_prop_def optional_includes_def
      split: option.splits json.splits)

lemma useEffect_fetch_cases:
  assumes "AdminPage_useEffect JSON_parse API_URL localStorage = Inr acts" and "Fetch r \<in> set acts"
  shows "\<exists>u members. localStorage ''user'' = Some u \<and> JSON_parse u = Some (JObj members) \<and>
           ((\<exists>elems. map_of members ''scopes'' = Some (JArr elems) \<and> JStr ''admin'' \<in> set elems)
            \<or> (\<exists>t. map_of members ''scopes'' = Some (JStr t) \<and> string_includes t ''admin''))"
proof -
  from assms have tu: "truthy (localStorage ''user'')"
    by (auto simp: AdminPage_useEffect_def Let_def split: if_splits)
  then obtain u where u: "localStorage ''user'' = Some u"
    by (auto simp: truthy_def split: option.splits)
  from assms tu u obtain parsedUser where p: "JSON_parse u = Some parsedUser"
    by (auto simp: AdminPage_useEffect_def Let_def split: option.splits if_splits)
  from assms tu u p have "scopes_include_admin parsedUser = Inr True"
    by (auto simp: AdminPage_useEffect_def Let_def split: sum.splits if_splits)
  with u p show ?thesis
    unfolding scopes_include_admin_True by blast
qed

text \<open>
  Claim C10. The claim has the effect redirect to \<^verbatim>\<open>/\<close> whenever the stored user's scopes do
  not include \<^verbatim>\<open>'admin'\<close>, and request the admin configuration, for every state of
  \<^verbatim>\<open>localStorage\<close>, only for a stored user whose scopes include \<^verbatim>\<open>'admin'\<close>; the source says
  the same of itself (``check if user is logged in and has admin scope''). The code does
  otherwise on these stored users. A user object whose \<^verbatim>\<open>scopes\<close> is the string
  \<^verbatim>\<open>nonadministrator\<close> has no scope \<^verbatim>\<open>admin\<close>, yet \<^verbatim>\<open>includes\<close> on a string is a substring
  test, so the effect sets the user and sends the request for \<^verbatim>\<open>/admin/config\<close>. With the
  \<^verbatim>\<open>user\<close> entry \<^verbatim>\<open>null\<close>, reading \<^verbatim>\<open>parsedUser.scopes\<close> throws a \<^verbatim>\<open>TypeError\<close>; with the entry
  \<^verbatim>\<open>undefined\<close>, which is not JSON, \<^verbatim>\<open>JSON.parse\<close> throws a \<^verbatim>\<open>SyntaxError\<close>; with a user object
  whose \<^verbatim>\<open>scopes\<close> is the number 0, calling \<^verbatim>\<open>includes\<close> throws a \<^verbatim>\<open>TypeError\<close>: in none of
  the three states does the effect redirect.
\<close>

theorem AdminPage_useEffect_failing_inputs:
  "AdminPage_useEffect
     [''{\"name\":\"bob\",\"scopes\":\"nonadministrator\"}'' \<mapsto>
        JObj [(''name'', JStr ''bob''), (''scopes'', JStr ''nonadministrator'')]]
     None
     [''token'' \<mapsto> ''t0k'', ''user'' \<mapsto> ''{\"name\":\"bob\",\"scopes\":\"nonadministrator\"}'']
   = Inr [SetUser (JObj [(''name'', JStr ''bob''), (''scopes'', JStr ''nonadministrator'')]),
          Fetch \<lparr>url = ''http://localhost:5000/admin/config'', authorization = ''Bearer t0k''\<rparr>]
   \<and> AdminPage_useEffect [''null'' \<mapsto> JNull] None [''token'' \<mapsto> ''t0k'', ''user'' \<mapsto> ''null'']
     = Inl TypeError
   \<and> AdminPage_useEffect Map.empty None [''token'' \<mapsto> ''t0k'', ''user'' \<mapsto> ''undefined'']
     = Inl SyntaxError
   \<and> AdminPage_useEffect
        [''{\"name\":\"bob\",\"scopes\":0}'' \<mapsto> JObj [(''name'', JStr ''bob''), (''scopes'', JNum 0)]]
        None [''token'' \<mapsto> ''t0k'', ''user'' \<mapsto> ''{\"name\":\"bob\",\"scopes\":0}'']
     = Inl TypeError"
  by (simp add: AdminPage_useEffect_def truthy_def scopes_include_admin_def get_prop_def
      optional_includes_def fetchConfig_def or_else_def)

text \<open>
  At the first two of these inputs, then, the effect does not end with the redirect to
  \<^verbatim>\<open>/\<close>: at one it sends the request, at the other it throws.
\<close>

theorem AdminPage_useEffect_failing_inputs_witness:
  "AdminPage_useEffect
     [''{\"name\":\"bob\",\"scopes\":\"nonadministrator\"}'' \<mapsto>
        JObj [(''name'', JStr ''bob''), (''scopes'', JStr ''nonadministrator'')]]
     None
     [''token'' \<mapsto> ''t0k'', ''user'' \<mapsto> ''{\"name\":\"bob\",\"scopes\":\"nonadministrator\"}'']
   \<noteq> Inr [RouterPush ''/'']
   \<and> AdminPage_useEffect [''null'' \<mapsto> JNull] None [''token'' \<mapsto> ''t0k'', ''user'' \<mapsto> ''null'']
     \<noteq> Inr [RouterPush ''/'']"
  using AdminPage_useEffect_failing_inputs by simp

section \<open>Properties of the metadata write\<close>








section \<open>Properties of the authorization decision\<close>

text \<open>
  The ordered evaluation agrees with the rule read over the whole set: Deny if some
  policy evaluates to deny, otherwise Allow if some policy evaluates to allow, otherwise
  what was decided before.
\<close>

lemma decide_from_eq:
  "decide_from so_far ps who action res =
     (if \<exists>p\<in>set ps. evaluate p who action res = Some Deny then Deny
      else if \<exists>p\<in>set ps. evaluate p who action res = Some Allow then Allow
      else so_far)"
proof (induction ps arbitrary: so_far)
  case Nil
  then show ?case by simp
next
  case (Cons p ps)
  show ?case
  proof (cases "evaluate p who action res")
    case None
    with Cons.IH [of so_far] show ?thesis by simp
  next
    case (Some e)
    show ?thesis
    proof (cases e)
      case Allow
      with Some Cons.IH [of Allow] show ?thesis by simp
    next
      case Deny
      with Some show ?thesis by simp
    qed
  qed
qed

lemma evaluate_unmatched: "\<not> conditions p action res \<Longrightarrow> evaluate p who action res = None"
  by (simp add: evaluate_def)

text \<open>
  Claim C3. \<^verbatim>\<open>decide\<close> returns Deny whenever some policy evaluates to deny, whatever
  allows there are; it returns Allow exactly when some policy evaluates to allow and none
  to deny; and it returns Deny when no policy's conditions match the action and the
  resource. In particular, with one policy that allows and one that denies, the decision
  is Deny.
\<close>

theorem decide_deny_overrides:
  "((\<exists>p\<in>set ps. evaluate p who action res = Some Deny) \<longrightarrow> decide ps who action res = Deny)
   \<and> (decide ps who action res = Allow \<longleftrightarrow>
        (\<exists>p\<in>set ps. evaluate p who action res = Some Allow)
        \<and> (\<forall>p\<in>set ps. evaluate p who action res \<noteq> Some Deny))
   \<and> ((\<forall>p\<in>set ps. \<not> conditions p action res) \<longrightarrow> decide ps who action res = Deny)
   \<and> (\<forall>p q. p \<in> set ps \<and> q \<in> set ps \<and> evaluate p who action res = Some Allow
         \<and> evaluate q who action res = Some Deny \<longrightarrow> decide ps who action res = Deny)"
proof (intro conjI)
  show "(\<exists>p\<in>set ps. evaluate p who action res = Some Deny) \<longrightarrow> decide ps who action res = Deny"
    by (simp add: decide_def decide_from_eq)
  show "decide ps who action res = Allow \<longleftrightarrow>
        (\<exists>p\<in>set ps. evaluate p who action res = Some Allow)
        \<and> (\<forall>p\<in>set ps. evaluate p who action res \<noteq> Some Deny)"
    by (auto simp: decide_def decide_from_eq)
  show "(\<forall>p\<in>set ps. \<not> conditions p action res) \<longrightarrow> decide ps who action res = Deny"
    by (auto simp: decide_def decide_from_eq evaluate_unmatched)
  show "\<forall>p q. p \<in> set ps \<and> q \<in> set ps \<and> evaluate p who action res = Some Allow
         \<and> evaluate q who action res = Some Deny \<longrightarrow> decide ps who action res = Deny"
    by (auto simp: decide_def decide_from_eq)
qed

theorem decide_deny_overrides_witness:
  "decide
     [\<lparr>policy_name = ''writers'', policy_effect = Allow,
       conditions = (\<lambda>a r. a = ''publish''),
       requirements = (\<lambda>w r. case w of Some p \<Rightarrow> ''write'' \<in> set (scopes p) | None \<Rightarrow> False)\<rparr>,
      \<lparr>policy_name = ''frozen'', policy_effect = Deny,
       conditions = (\<lambda>a r. a = ''publish''),
       requirements = (\<lambda>w r. r ''frozen'' = Some ''true'')\<rparr>]
     (Some \<lparr>principal_id = ''alice'', scopes = [''read'', ''write'']\<rparr>) ''publish''
     [''frozen'' \<mapsto> ''true''] = Deny
   \<and> decide
     [\<lparr>policy_name = ''writers'', policy_effect = Allow,
       conditions = (\<lambda>a r. a = ''publish''),
       requirements = (\<lambda>w r. case w of Some p \<Rightarrow> ''write'' \<in> set (scopes p) | None \<Rightarrow> False)\<rparr>,
      \<lparr>policy_name = ''frozen'', policy_effect = Deny,
       conditions = (\<lambda>a r. a = ''publish''),
       requirements = (\<lambda>w r. r ''frozen'' = Some ''true'')\<rparr>]
     (Some \<lparr>principal_id = ''alice'', scopes = [''read'', ''write'']\<rparr>) ''publish''
     Map.empty = Allow
   \<and> decide
     [\<lparr>policy_name = ''writers'', policy_effect = Allow,
       conditions = (\<lambda>a r. a = ''publish''),
       requirements = (\<lambda>w r. case w of Some p \<Rightarrow> ''write'' \<in> set (scopes p) | None \<Rightarrow> False)\<rparr>,
      \<lparr>policy_name = ''frozen'', policy_effect = Deny,
       conditions = (\<lambda>a r. a = ''publish''),
       requirements = (\<lambda>w r. r ''frozen'' = Some ''true'')\<rparr>]
     (Some \<lparr>principal_id = ''alice'', scopes = [''read'', ''write'']\<rparr>) ''delete''
     Map.empty = Deny"
proof -
  let ?writers = "\<lparr>policy_name = ''writers'', policy_effect = Allow,
       conditions = (\<lambda>a (r :: resource_context). a = ''publish''),
       requirements = (\<lambda>w (r :: resource_context).
          case w of Some p \<Rightarrow> ''write'' \<in> set (scopes p) | None \<Rightarrow> False)\<rparr>"
  let ?frozen = "\<lparr>policy_name = ''frozen'', policy_effect = Deny,
       conditions = (\<lambda>a (r :: resource_context). a = ''publish''),
       requirements = (\<lambda>(w :: principal option) r. r ''frozen'' = Some ''true'')\<rparr>"
  let ?alice = "Some \<lparr>principal_id = ''alice'', scopes = [''read'', ''write'']\<rparr>"
  let ?ps = "[?writers, ?frozen]"
  have allow: "evaluate ?writers ?alice ''publish'' res = Some Allow" for res
    by (simp add: evaluate_def)
  have deny: "evaluate ?frozen ?alice ''publish'' [''frozen'' \<mapsto> ''true''] = Some Deny"
    by (simp add: evaluate_def)
  have no_deny: "evaluate ?frozen ?alice ''publish'' Map.empty = None"
    by (simp add: evaluate_def)
  have "\<exists>p\<in>set ?ps. evaluate p ?alice ''publish'' [''frozen'' \<mapsto> ''true''] = Some Deny"
    using deny by (intro bexI [of _ ?frozen]) simp_all
  then have 1: "decide ?ps ?alice ''publish'' [''frozen'' \<mapsto> ''true''] = Deny"
    using decide_deny_overrides [of ?ps ?alice "''publish''" "[''frozen'' \<mapsto> ''true'']",
        THEN conjunct1]
    by (rule rev_mp)
  have some_allow: "\<exists>p\<in>set ?ps. evaluate p ?alice ''publish'' Map.empty = Some Allow"
    using allow [of Map.empty] by (intro bexI [of _ ?writers]) simp_all
  have none_deny: "\<forall>p\<in>set ?ps. evaluate p ?alice ''publish'' Map.empty \<noteq> Some Deny"
    using allow [of Map.empty] no_deny by simp
  have 2: "decide ?ps ?alice ''publish'' Map.empty = Allow"
    using decide_deny_overrides [of ?ps ?alice "''publish''" Map.empty,
        THEN conjunct2, THEN conjunct1] some_allow none_deny
    by (simp only: simp_thms)
  have "\<forall>p\<in>set ?ps. \<not> conditions p ''delete'' Map.empty"
    by simp
  then have 3: "decide ?ps ?alice ''delete'' Map.empty = Deny"
    using decide_deny_overrides [of ?ps ?alice "''delete''" Map.empty,
        THEN conjunct2, THEN conjunct2, THEN conjunct1]
    by (rule rev_mp)
  from 1 2 3 show ?thesis by (intro conjI)
qed

end
